theory Spec2Isabelle
  imports Main "HOL-Library.Sublist"
begin

section \<open>Python values\<close>

text \<open>
  A Python exception is a value: its class name and its message (what \<open>str(e)\<close> gives).
  A function that may raise returns \<open>error + 'a\<close>, with \<open>Inl\<close> for the exception.
\<close>

datatype error = Error (err_class: string) (err_msg: string)

text \<open>
  A Python string is a list of characters. A \<open>char\<close> stands for one code point below 256,
  and \<open>length\<close> counts code points as \<open>len\<close> does.
\<close>

definition digit_char :: "nat \<Rightarrow> char" where
  "digit_char d = ''0123456789'' ! d"

text \<open>\<open>str(n)\<close> of a Python integer: decimal digits, a minus sign when negative.\<close>

fun str_nat :: "nat \<Rightarrow> string" where
  "str_nat n = (if n < 10 then [digit_char n] else str_nat (n div 10) @ [digit_char (n mod 10)])"

declare str_nat.simps [simp del]

definition str_int :: "int \<Rightarrow> string" where
  "str_int i = (if i < 0 then CHR ''-'' # str_nat (nat (- i)) else str_nat (nat i))"

text \<open>Different numbers have different decimal renderings.\<close>

lemma digit_char_inj: "a < 10 \<Longrightarrow> b < 10 \<Longrightarrow> digit_char a = digit_char b \<Longrightarrow> a = b"
proof -
  assume a: "a < 10" and b: "b < 10" and e: "digit_char a = digit_char b"
  have d: "distinct ''0123456789''" by simp
  have "length ''0123456789'' = 10" by simp
  with a b d e show "a = b"
    unfolding digit_char_def by (metis nth_eq_iff_index_eq)
qed

lemma str_nat_nonempty: "str_nat n \<noteq> []"
  by (subst str_nat.simps) simp

lemma str_nat_inj: "str_nat n = str_nat m \<Longrightarrow> n = m"
proof (induction n arbitrary: m rule: str_nat.induct)
  case (1 n)
  show ?case
  proof (cases "n < 10")
    case True
    then have ln: "length (str_nat n) = 1" by (subst str_nat.simps) simp
    have m10: "m < 10"
    proof (rule ccontr)
      assume "\<not> m < 10"
      then have "str_nat m = str_nat (m div 10) @ [digit_char (m mod 10)]"
        by (subst str_nat.simps) simp
      then have "length (str_nat m) \<ge> 2"
        using str_nat_nonempty [of "m div 10"] by (cases "str_nat (m div 10)") auto
      with ln "1.prems" show False by simp
    qed
    have "str_nat n = [digit_char n]" using True by (subst str_nat.simps) simp
    moreover have "str_nat m = [digit_char m]" using m10 by (subst str_nat.simps) simp
    ultimately show ?thesis using "1.prems" True m10 digit_char_inj by simp
  next
    case False
    then have en: "str_nat n = str_nat (n div 10) @ [digit_char (n mod 10)]"
      by (subst str_nat.simps) simp
    then have "length (str_nat n) \<ge> 2"
      using str_nat_nonempty [of "n div 10"] by (cases "str_nat (n div 10)") auto
    have m10: "\<not> m < 10"
    proof
      assume "m < 10"
      then have "length (str_nat m) = 1" by (subst str_nat.simps) simp
      with \<open>length (str_nat n) \<ge> 2\<close> "1.prems" show False by simp
    qed
    then have em: "str_nat m = str_nat (m div 10) @ [digit_char (m mod 10)]"
      by (subst str_nat.simps) simp
    from en em "1.prems" have a: "str_nat (n div 10) = str_nat (m div 10)"
      and b: "digit_char (n mod 10) = digit_char (m mod 10)" by simp_all
    from "1.IH" [OF False a] have "n div 10 = m div 10" .
    moreover from b have "n mod 10 = m mod 10" by (intro digit_char_inj) simp_all
    ultimately show ?thesis by (metis div_mult_mod_eq)
  qed
qed



text \<open>
  \<open>str.isalnum\<close> and \<open>str.isspace\<close> of one character, by code point (Python's
  tables below 256).
\<close>

definition isalnum :: "char \<Rightarrow> bool" where
  "isalnum c =
     (let n = (of_char c :: nat) in
      (48 \<le> n \<and> n \<le> 57) \<or> (65 \<le> n \<and> n \<le> 90) \<or> (97 \<le> n \<and> n \<le> 122)
      \<or> n = 170 \<or> n = 178 \<or> n = 179 \<or> n = 181 \<or> n = 185 \<or> n = 186
      \<or> (188 \<le> n \<and> n \<le> 190) \<or> (192 \<le> n \<and> n \<le> 214) \<or> (216 \<le> n \<and> n \<le> 246)
      \<or> 248 \<le> n)"

definition isspace :: "char \<Rightarrow> bool" where
  "isspace c =
     (let n = (of_char c :: nat) in
      (9 \<le> n \<and> n \<le> 13) \<or> (28 \<le> n \<and> n \<le> 32) \<or> n = 133 \<or> n = 160)"

text \<open>\<open>s.strip()\<close>: leading and trailing whitespace removed.\<close>

definition strip :: "string \<Rightarrow> string" where
  "strip s = rev (dropWhile isspace (rev (dropWhile isspace s)))"

text \<open>\<open>s.replace(c, new)\<close> for a one-character \<open>c\<close>.\<close>

definition replace_char :: "char \<Rightarrow> string \<Rightarrow> string \<Rightarrow> string" where
  "replace_char c new s = concat (map (\<lambda>x. if x = c then new else [x]) s)"

text \<open>
  Iterating over a file opened in text mode: the text is cut after each line ending,
  and the endings \<open>\r\n\<close> and \<open>\r\<close> are read as \<open>\n\<close> (universal newlines). The
  first argument is the line read so far.
\<close>

fun read_lines :: "string \<Rightarrow> string \<Rightarrow> string list" where
  "read_lines cur [] = (if cur = [] then [] else [cur])"
| "read_lines cur (c # cs) =
     (if c = CHR 0x0A then (cur @ [CHR 0x0A]) # read_lines [] cs
      else if c = CHR 0x0D then
        (cur @ [CHR 0x0A]) # read_lines [] (if cs \<noteq> [] \<and> hd cs = CHR 0x0A then tl cs else cs)
      else read_lines (cur @ [c]) cs)"

definition file_lines :: "string \<Rightarrow> string list" where
  "file_lines text = read_lines [] text"

section \<open>JSON values\<close>

text \<open>
  What \<open>json.load\<close> and \<open>response.json()\<close> deliver. A dict is an association list
  read with \<open>map_of\<close>. Numbers are carried by integers: the code below only tests a
  number for zero and for its type.
\<close>

datatype json =
    JNull
  | JBool bool
  | JNum int
  | JStr string
  | JList "json list"
  | JDict "(string \<times> json) list"

text \<open>Python truthiness of a value.\<close>

definition py_truthy :: "json \<Rightarrow> bool" where
  "py_truthy v =
     (case v of
        JNull \<Rightarrow> False
      | JBool b \<Rightarrow> b
      | JNum n \<Rightarrow> n \<noteq> 0
      | JStr s \<Rightarrow> s \<noteq> []
      | JList xs \<Rightarrow> xs \<noteq> []
      | JDict kvs \<Rightarrow> kvs \<noteq> [])"

text \<open>\<open>d.get(key)\<close> on a dict: the value, or \<open>None\<close>.\<close>

definition dict_get :: "(string \<times> json) list \<Rightarrow> string \<Rightarrow> json" where
  "dict_get kvs key = (case map_of kvs key of None \<Rightarrow> JNull | Some v \<Rightarrow> v)"

lemma size_map_of:
  "map_of kvs k = Some v \<Longrightarrow> size v < Suc (size_list (size_prod (\<lambda>_. 0) size) kvs)"
  by (induction kvs) (auto split: if_splits)

section \<open>app/core/config.py\<close>







section \<open>sync-granola.py\<close>

subsection \<open>\<open>prosemirror_to_text\<close>\<close>

text \<open>
  The inner function \<open>extract_text\<close> appends to \<open>text_parts\<close>; here it returns the
  parts it appends, in order. A part is whatever \<open>node.get("text", "")\<close> gives, so a
  JSON value. Iterating over a \<open>content\<close> that is a dict or a string visits strings,
  which \<open>extract_text\<close> ignores; iterating over \<open>None\<close>, a number or a boolean raises.
\<close>

function extract_text :: "json \<Rightarrow> error + json list"
  and extract_each :: "json list \<Rightarrow> error + json list" where
  "extract_text (JDict node) =
     (case (case map_of node ''content'' of
              None \<Rightarrow> Inr []
            | Some (JList children) \<Rightarrow> extract_each children
            | Some (JDict _) \<Rightarrow> Inr []
            | Some (JStr _) \<Rightarrow> Inr []
            | Some _ \<Rightarrow> Inl (Error ''TypeError'' ''object is not iterable'')) of
        Inl e \<Rightarrow> Inl e
      | Inr inner \<Rightarrow>
          Inr ((if map_of node ''type'' = Some (JStr ''text'')
                then [case map_of node ''text'' of None \<Rightarrow> JStr [] | Some t \<Rightarrow> t]
                else [])
               @ inner
               @ (if map_of node ''type'' = Some (JStr ''paragraph'')
                     \<or> map_of node ''type'' = Some (JStr ''heading'')
                  then [JStr ''\<newline>\<newline>''] else [])))"
| "extract_text (JList items) = extract_each items"
| "extract_text JNull = Inr []"
| "extract_text (JBool _) = Inr []"
| "extract_text (JNum _) = Inr []"
| "extract_text (JStr _) = Inr []"
| "extract_each [] = Inr []"
| "extract_each (item # items) =
     (case extract_text item of
        Inl e \<Rightarrow> Inl e
      | Inr a \<Rightarrow> (case extract_each items of Inl e \<Rightarrow> Inl e | Inr b \<Rightarrow> Inr (a @ b)))"
  by pat_completeness auto
termination
  by (relation "measure (\<lambda>x. case x of Inl v \<Rightarrow> size v | Inr vs \<Rightarrow> size_list size vs)")
     (auto dest: size_map_of)

text \<open>\<open>"".join(text_parts)\<close>: raises unless every part is a string.\<close>

fun join_parts :: "json list \<Rightarrow> error + string" where
  "join_parts [] = Inr []"
| "join_parts (JStr s # parts) =
     (case join_parts parts of Inl e \<Rightarrow> Inl e | Inr rest \<Rightarrow> Inr (s @ rest))"
| "join_parts (_ # parts) = Inl (Error ''TypeError'' ''expected str instance'')"

text \<open>\<open>"content" in doc\<close>, for a truthy \<open>doc\<close>.\<close>

definition has_content :: "json \<Rightarrow> error + bool" where
  "has_content doc =
     (case doc of
        JDict node \<Rightarrow> Inr (map_of node ''content'' \<noteq> None)
      | JList items \<Rightarrow> Inr (JStr ''content'' \<in> set items)
      | JStr s \<Rightarrow> Inr (sublist ''content'' s)
      | _ \<Rightarrow> Inl (Error ''TypeError'' ''argument is not iterable''))"

definition prosemirror_to_text :: "json \<Rightarrow> error + string" where
  "prosemirror_to_text doc =
     (if \<not> py_truthy doc then Inr []
      else case has_content doc of
        Inl e \<Rightarrow> Inl e
      | Inr False \<Rightarrow> Inr []
      | Inr True \<Rightarrow>
          (case extract_text doc of
             Inl e \<Rightarrow> Inl e
           | Inr text_parts \<Rightarrow>
               (case join_parts text_parts of Inl e \<Rightarrow> Inl e | Inr s \<Rightarrow> Inr (strip s))))"

subsection \<open>\<open>save_document\<close>\<close>

text \<open>
  A remote document, as the API delivers it: each field is the value under its key, or
  \<open>None\<close> when the key is missing. Identifier, title and creation time are strings.
\<close>

record remote_document =
  r_id :: "string option"
  r_title :: "string option"
  r_created_at :: "string option"
  r_transcription :: "json option"
  r_content :: "json option"

text \<open>
  The output directory: its entries in the order a listing gives them, each a file name
  with the text that reading the file yields (up to its end or to the first error; empty
  for an entry that cannot be opened).
\<close>

type_synonym directory = "(string \<times> string) list"

text \<open>\<open>output_dir.glob("*.md")\<close>.\<close>

definition glob_md :: "directory \<Rightarrow> directory" where
  "glob_md dir = filter (\<lambda>entry. suffix ''.md'' (fst entry)) dir"

definition has_marker :: "string \<Rightarrow> string \<Rightarrow> bool" where
  "has_marker doc_id line =
     (sublist (''**Document ID:** '' @ doc_id) line
      \<or> sublist (''<!-- doc-id: '' @ doc_id @ '' -->'') line)"

text \<open>The loop over \<open>enumerate(f)\<close>, lines 127 to 131: \<open>True\<close> when it returns the file.\<close>

fun scan_lines :: "string \<Rightarrow> nat \<Rightarrow> string list \<Rightarrow> bool" where
  "scan_lines doc_id i [] = False"
| "scan_lines doc_id i (line # rest) =
     (if i > 10 then False
      else if has_marker doc_id line then True
      else scan_lines doc_id (Suc i) rest)"

text \<open>The loop over the existing files, lines 121 to 133.\<close>

fun find_existing :: "directory \<Rightarrow> string \<Rightarrow> string option" where
  "find_existing [] doc_id = None"
| "find_existing (existing_file # files) doc_id =
     (if fst existing_file = ''.gitkeep'' then find_existing files doc_id
      else if scan_lines doc_id 0 (file_lines (snd existing_file)) then Some (fst existing_file)
      else find_existing files doc_id)"

text \<open>Lines 143 and 144.\<close>

definition safe_title :: "string \<Rightarrow> string" where
  "safe_title title =
     take 50 (replace_char CHR '' '' ''-''
       (map (\<lambda>c. if isalnum c \<or> c = CHR '' '' \<or> c = CHR ''-'' \<or> c = CHR ''_'' then c
                 else CHR ''-'') title))"

text \<open>
  The file name tried for a given counter, and the loop of lines 151 to 154 over the
  names present in the directory. The loop ends because the directory is finite and the
  names tried are all different.
\<close>

definition candidate :: "string \<Rightarrow> nat \<Rightarrow> string" where
  "candidate stem counter = stem @ ''-'' @ str_nat counter @ ''.md''"

lemma candidate_inj: "inj (candidate stem)"
  by (rule injI) (simp add: candidate_def str_nat_inj)

lemma finite_taken: "finite {k. candidate stem k \<in> set names}"
proof -
  have "finite (candidate stem -` set names)"
    by (rule finite_vimageI [OF _ candidate_inj]) simp
  then show ?thesis by (simp add: vimage_def)
qed

function collision_loop :: "string list \<Rightarrow> string \<Rightarrow> string \<Rightarrow> nat \<Rightarrow> string" where
  "collision_loop names stem filename counter =
     (if filename \<in> set names
      then collision_loop names stem (candidate stem counter) (Suc counter)
      else filename)"
  by pat_completeness auto
termination
proof (relation "measure (\<lambda>(names, stem, filename, counter).
    card {k. counter \<le> k \<and> candidate stem k \<in> set names}
      + (if filename \<in> set names then 1 else 0))")
  show "wf (measure (\<lambda>(names, stem, filename, counter).
    card {k. counter \<le> k \<and> candidate stem k \<in> set names}
      + (if filename \<in> set names then 1 else 0)))" by simp
next
  fix names :: "string list" and stem filename :: string and counter :: nat
  assume taken: "filename \<in> set names"
  let ?A = "{k. counter \<le> k \<and> candidate stem k \<in> set names}"
  let ?B = "{k. Suc counter \<le> k \<and> candidate stem k \<in> set names}"
  have fin: "finite ?A" using finite_taken [of stem names] by simp
  have "card ?B + (if candidate stem counter \<in> set names then 1 else 0) \<le> card ?A"
  proof (cases "candidate stem counter \<in> set names")
    case True
    then have "?A = insert counter ?B" by (auto simp: Suc_le_eq le_less)
    moreover have "counter \<notin> ?B" by simp
    moreover have "finite ?B" using fin by (rule rev_finite_subset) auto
    ultimately show ?thesis using True by simp
  next
    case False
    have "?B \<subseteq> ?A" by auto
    then have "card ?B \<le> card ?A" using fin by (rule card_mono [rotated])
    with False show ?thesis by simp
  qed
  with taken show "((names, stem, candidate stem counter, Suc counter), names, stem, filename, counter)
    \<in> measure (\<lambda>(names, stem, filename, counter).
      card {k. counter \<le> k \<and> candidate stem k \<in> set names}
        + (if filename \<in> set names then 1 else 0))" by simp
qed

declare collision_loop.simps [simp del]

text \<open>
  Lines 157 to 160: \<open>doc.get("transcription", {}).get("transcriptionDoc")\<close> raises when
  the transcription is present and is not a dict.
\<close>

definition transcript_of :: "remote_document \<Rightarrow> error + string" where
  "transcript_of doc =
     (case (case r_transcription doc of None \<Rightarrow> JDict [] | Some v \<Rightarrow> v) of
        JDict transcription \<Rightarrow>
          (let transcription_doc = dict_get transcription ''transcriptionDoc'' in
           if py_truthy transcription_doc then prosemirror_to_text transcription_doc
           else Inr [])
      | _ \<Rightarrow> Inl (Error ''AttributeError'' ''object has no attribute get''))"

text \<open>Lines 172 to 178: the text appended for the meeting notes.\<close>

definition notes_of :: "remote_document \<Rightarrow> bool \<Rightarrow> error + string" where
  "notes_of doc include_full_note =
     (if include_full_note then
        (let note_content = (case r_content doc of None \<Rightarrow> JNull | Some v \<Rightarrow> v) in
         if py_truthy note_content then
           (case prosemirror_to_text note_content of
              Inl e \<Rightarrow> Inl e
            | Inr note_text \<Rightarrow>
                Inr (if note_text \<noteq> [] then ''## Meeting Notes\<newline>\<newline>'' @ note_text
                     else []))
         else Inr [])
      else Inr [])"

text \<open>Lines 163 to 170.\<close>

definition header :: "string \<Rightarrow> string \<Rightarrow> string \<Rightarrow> string" where
  "header title created_at doc_id =
     ''# '' @ title @ ''\<newline>\<newline>'' @ ''**Date:** '' @ created_at @ ''\<newline>''
       @ ''**Document ID:** '' @ doc_id @ ''\<newline>\<newline>''"

definition transcript_section :: "string \<Rightarrow> string" where
  "transcript_section transcript =
     (if transcript \<noteq> [] then ''## Transcript\<newline>\<newline>'' @ transcript @ ''\<newline>\<newline>''
      else [])"

text \<open>
  \<open>save_document\<close> returns the path of the file (its name in the output directory) and
  the directory as it leaves it; a new file is a new entry. The first argument stands for
  \<open>datetime.fromisoformat(s).strftime("%Y-%m-%d")\<close>, \<open>None\<close> when that raises.
\<close>

definition save_document ::
  "(string \<Rightarrow> string option) \<Rightarrow> directory \<Rightarrow> remote_document \<Rightarrow> bool
     \<Rightarrow> error + (string \<times> directory)" where
  "save_document format_date dir doc include_full_note =
     (let doc_id = (case r_id doc of None \<Rightarrow> ''unknown'' | Some v \<Rightarrow> v);
          title = (case r_title doc of None \<Rightarrow> ''Untitled'' | Some v \<Rightarrow> v);
          created_at = (case r_created_at doc of None \<Rightarrow> [] | Some v \<Rightarrow> v)
      in case find_existing (glob_md dir) doc_id of
           Some existing_file \<Rightarrow> Inr (existing_file, dir)
         | None \<Rightarrow>
             (let date_str =
                    (case format_date (replace_char CHR ''Z'' ''+00:00'' created_at) of
                       Some d \<Rightarrow> d
                     | None \<Rightarrow> ''no-date'');
                  stem = date_str @ ''_'' @ safe_title title;
                  filename = collision_loop (map fst dir) stem (stem @ ''.md'') 1
              in case transcript_of doc of
                   Inl e \<Rightarrow> Inl e
                 | Inr transcript \<Rightarrow>
                     (case notes_of doc include_full_note of
                        Inl e \<Rightarrow> Inl e
                      | Inr notes \<Rightarrow>
                          Inr (filename,
                               dir @ [(filename,
                                      header title created_at doc_id
                                        @ transcript_section transcript @ notes)]))))"

subsection \<open>\<open>sync\<close> and \<open>main\<close>\<close>






section \<open>app/services/langflow_service.py\<close>

text \<open>
  The inputs of a flow are a dict (the request model validates them). What a flow
  returns is a JSON value: the built-in flows build dicts, and the value decoded from the
  response of the engine is returned as it is.
\<close>

type_synonym py_dict = "(string \<times> json) list"

text \<open>
  What the service reaches outside itself: the URL of the flow engine; the HTTP call to
  it with \<open>raise_for_status\<close> and the decoding of its response, which returns the
  response or raises; Python's rendering of a list or a dict in an f-string; the opening
  of the vector store with the similarity search, which returns the page contents found
  or raises. The response of the engine decodes to any JSON value: \<open>execute_flow\<close>
  does not check it. All exceptions here are of class \<open>Exception\<close>.
\<close>

record engine =
  langflow_url :: string
  http_post :: "string \<Rightarrow> py_dict \<Rightarrow> error + json"
  py_repr :: "json \<Rightarrow> string"
  similarity_search :: "json \<Rightarrow> error + string list"

text \<open>\<open>inputs.get(key, default)\<close>.\<close>

definition get_or :: "py_dict \<Rightarrow> string \<Rightarrow> json \<Rightarrow> json" where
  "get_or d key fallback = (case map_of d key of None \<Rightarrow> fallback | Some v \<Rightarrow> v)"

text \<open>A value inside an f-string: \<open>str(v)\<close>.\<close>

definition format_value :: "engine \<Rightarrow> json \<Rightarrow> string" where
  "format_value w v =
     (case v of
        JStr s \<Rightarrow> s
      | JNull \<Rightarrow> ''None''
      | JBool b \<Rightarrow> (if b then ''True'' else ''False'')
      | JNum n \<Rightarrow> str_int n
      | _ \<Rightarrow> py_repr w v)"

text \<open>The two characters that \<open>\\n\<close> denotes in the source: a backslash and an n.\<close>

definition backslash_n :: string where
  "backslash_n = [CHR 0x5C, CHR ''n'']"

definition execute_chat_flow :: "engine \<Rightarrow> py_dict \<Rightarrow> error + json" where
  "execute_chat_flow w inputs =
     (let message = get_or inputs ''message'' (get_or inputs ''text'' (JStr ''Hello''));
          response = ''AI Response to: '' @ format_value w message @ backslash_n @ backslash_n
            @ ''This is a simulated response from the chat flow. In a real implementation, this would connect to your preferred LLM.''
      in Inr (JDict [(''response'', JStr response), (''message_count'', JNum 1),
                     (''flow_type'', JStr ''chat'')]))"

text \<open>\<open>sep.join(parts)\<close>.\<close>

fun join_with :: "string \<Rightarrow> string list \<Rightarrow> string" where
  "join_with sep [] = []"
| "join_with sep [s] = s"
| "join_with sep (s # rest) = s @ sep @ join_with sep rest"

definition execute_rag_flow :: "engine \<Rightarrow> py_dict \<Rightarrow> error + json" where
  "execute_rag_flow w inputs =
     (let question = get_or inputs ''question''
                       (get_or inputs ''text'' (JStr ''What is this about?''))
      in case similarity_search w question of
           Inr docs \<Rightarrow>
             Inr (JDict [(''answer'', JStr
                    (if docs \<noteq> [] then
                       ''Based on the documents, here'' @ [CHR 0x27]
                         @ ''s what I found about '' @ [CHR 0x27] @ format_value w question
                         @ [CHR 0x27] @ '':'' @ backslash_n @ backslash_n
                         @ take 500 (join_with (backslash_n @ backslash_n) docs) @ ''...''
                     else ''No relevant documents found. Please upload some documents first using the /flows/upload-documents endpoint.'')),
                  (''question'', question),
                  (''sources_found'', JNum (int (length docs))),
                  (''flow_type'', JStr ''rag'')])
         | Inl e \<Rightarrow>
             Inr (JDict [(''answer'', JStr (''Error accessing documents: '' @ err_msg e
                    @ ''. Make sure to upload documents first.'')),
                  (''question'', question),
                  (''sources_found'', JNum 0),
                  (''flow_type'', JStr ''rag'')]))"

text \<open>
  \<open>document_text[:100]\<close> and \<open>len(document_text)\<close>: a string and a list have both,
  any other value raises at the slice.
\<close>

definition execute_summary_flow :: "engine \<Rightarrow> py_dict \<Rightarrow> error + json" where
  "execute_summary_flow w inputs =
     (let document_text = get_or inputs ''document''
                            (get_or inputs ''text'' (JStr ''No document provided''))
      in case (case document_text of
                 JStr s \<Rightarrow> Inr (take 100 s, length s)
               | JList xs \<Rightarrow> Inr (format_value w (JList (take 100 xs)), length xs)
               | JDict _ \<Rightarrow> Inl (Error ''TypeError'' ''unhashable type: slice'')
               | _ \<Rightarrow> Inl (Error ''TypeError'' ''object is not subscriptable'')) of
           Inl e \<Rightarrow> Inl e
         | Inr sliced \<Rightarrow>
             (let summary = ''Summary of document (first 100 chars): '' @ fst sliced @ ''...''
              in Inr (JDict [(''summary'', JStr summary),
                      (''original_length'', JNum (int (snd sliced))),
                      (''summary_length'', JNum (int (length summary))),
                      (''flow_type'', JStr ''summary'')])))"

definition execute_flow :: "engine \<Rightarrow> string \<Rightarrow> py_dict \<Rightarrow> error + json" where
  "execute_flow w flow_id inputs =
     (if flow_id = ''chat-basic'' then execute_chat_flow w inputs
      else if flow_id = ''rag-qa'' then execute_rag_flow w inputs
      else if flow_id = ''document-summary'' then execute_summary_flow w inputs
      else case http_post w (langflow_url w @ ''/api/flows/'' @ flow_id @ ''/run'')
                  [(''inputs'', JDict inputs)] of
             Inr response \<Rightarrow> Inr response
           | Inl e \<Rightarrow>
               Inr (JDict [(''error'', JStr (''Flow '' @ flow_id
                      @ '' not found and LangFlow not available'')),
                    (''available_flows'',
                     JList [JStr ''chat-basic'', JStr ''rag-qa'',
                            JStr ''document-summary''])]))"

subsection \<open>\<open>execute_flow_streaming\<close>\<close>

text \<open>
  An entry of \<open>self.executions\<close>. The outputs are a JSON value, \<open>JNull\<close> being
  Python's \<open>None\<close>: the entry stores what \<open>execute_flow\<close> returned. The key
  \<open>completed_at\<close> is missing until the entry is updated.
\<close>

record execution =
  x_flow_id :: string
  x_status :: string
  x_outputs :: json
  x_error :: "string option"
  x_started_at :: string
  x_completed_at :: "string option"

type_synonym executions = "string \<rightharpoonup> execution"

text \<open>
  The background task writes the table twice: when it starts, and when the awaited
  \<open>execute_flow\<close> has returned or raised. The model returns the table after each
  write, in order; \<open>started\<close> and \<open>completed\<close> are the two readings of the clock.
\<close>

definition running_entry :: "string \<Rightarrow> string \<Rightarrow> execution" where
  "running_entry flow_id started =
     \<lparr>x_flow_id = flow_id, x_status = ''running'', x_outputs = JNull, x_error = None,
      x_started_at = started, x_completed_at = None\<rparr>"

definition execute_flow_streaming ::
  "engine \<Rightarrow> executions \<Rightarrow> string \<Rightarrow> string \<Rightarrow> py_dict \<Rightarrow> string \<Rightarrow> string
     \<Rightarrow> executions list" where
  "execute_flow_streaming w table execution_id flow_id inputs started completed =
     (let table1 = table(execution_id \<mapsto> running_entry flow_id started)
      in [table1,
          case execute_flow w flow_id inputs of
            Inr result \<Rightarrow>
              table1(execution_id \<mapsto> (running_entry flow_id started)
                \<lparr>x_status := ''completed'', x_outputs := result,
                 x_completed_at := Some completed\<rparr>)
          | Inl e \<Rightarrow>
              table1(execution_id \<mapsto> (running_entry flow_id started)
                \<lparr>x_status := ''failed'', x_error := Some (err_msg e),
                 x_completed_at := Some completed\<rparr>)])"

text \<open>
  \<open>get_execution\<close>: what a poll of the table returns for an execution id, \<open>None\<close>
  when the table has no entry for it.
\<close>

record execution_info =
  i_execution_id :: string
  i_flow_id :: string
  i_status :: string
  i_outputs :: json
  i_error :: "string option"

definition get_execution :: "executions \<Rightarrow> string \<Rightarrow> execution_info option" where
  "get_execution table execution_id =
     (case table execution_id of
        None \<Rightarrow> None
      | Some execution \<Rightarrow>
          Some \<lparr>i_execution_id = execution_id, i_flow_id = x_flow_id execution,
                i_status = x_status execution, i_outputs = x_outputs execution,
                i_error = x_error execution\<rparr>)"

subsection \<open>\<open>process_documents\<close>\<close>

text \<open>
  A chunk is a \<open>Document\<close> object. It defines neither \<open>__bool__\<close> nor \<open>__len__\<close>,
  so it is true whatever it holds.
\<close>

datatype chunk = Document (page_content: string)

definition truthy_chunk :: "chunk \<Rightarrow> bool" where
  "truthy_chunk doc = True"

datatype loader = PyPDFLoader | Docx2txtLoader | TextLoader

definition loader_for :: "string \<Rightarrow> loader" where
  "loader_for file_path =
     (if suffix ''.pdf'' file_path then PyPDFLoader
      else if suffix ''.docx'' file_path then Docx2txtLoader
      else TextLoader)"

text \<open>
  The libraries behind ingestion: loading a file with a loader and splitting it into
  chunks, which raises or returns the chunks, and adding the chunks to the vector store,
  which may raise.
\<close>

record library =
  load_and_split :: "loader \<Rightarrow> string \<Rightarrow> error + chunk list"
  add_documents :: "chunk list \<Rightarrow> error option"

text \<open>
  The loop of lines 288 to 317 over the file paths, on the pair of \<open>processed_docs\<close>
  and \<open>document_ids\<close>.
\<close>

fun process_each ::
  "library \<Rightarrow> string list \<Rightarrow> chunk list \<times> string list \<Rightarrow> chunk list \<times> string list" where
  "process_each lib [] acc = acc"
| "process_each lib (file_path # file_paths) acc =
     (case load_and_split lib (loader_for file_path) file_path of
        Inl e \<Rightarrow> process_each lib file_paths acc
      | Inr split_docs \<Rightarrow>
          process_each lib file_paths
            (fst acc @ split_docs, snd acc @ [''doc_'' @ str_nat (length (snd acc))]))"

record processing_result =
  document_ids :: "string list"
  chunks_processed :: nat
  files_processed :: nat

definition process_documents :: "library \<Rightarrow> string list \<Rightarrow> error + processing_result" where
  "process_documents lib file_paths =
     (let acc = process_each lib file_paths ([], []);
          processed_docs = fst acc;
          result = \<lparr>document_ids = snd acc,
                    chunks_processed = length processed_docs,
                    files_processed =
                      length (filter (\<lambda>f. list_ex truthy_chunk processed_docs) file_paths)\<rparr>
      in if processed_docs \<noteq> [] then
           (case add_documents lib processed_docs of
              Some e \<Rightarrow> Inl e
            | None \<Rightarrow> Inr result)
         else Inr result)"

section \<open>app/api/v1/flows.py\<close>

record flow_request =
  q_flow_id :: string
  q_inputs :: py_dict
  q_stream :: bool

record flow_response =
  p_execution_id :: string
  p_flow_id :: string
  p_status :: string
  p_outputs :: "py_dict option"
  p_error :: "string option"

text \<open>
  Building \<open>FlowResponse(..., outputs=result)\<close>: the field \<open>outputs\<close> is declared
  \<open>Optional[Dict[str, Any]]\<close>, so the model takes \<open>None\<close> and a dict and raises a
  validation error on any other value.
\<close>

definition validate_outputs :: "json \<Rightarrow> error + py_dict option" where
  "validate_outputs result =
     (case result of
        JNull \<Rightarrow> Inr None
      | JDict d \<Rightarrow> Inr (Some d)
      | _ \<Rightarrow> Inl (Error ''ValidationError''
                 ''1 validation error for FlowResponse: outputs: Input should be a valid dictionary''))"

text \<open>
  The endpoint \<open>execute_flow\<close> of the router (the service has a method of the same
  name). \<open>execution_id\<close> is the fresh \<open>uuid4\<close>. The result is the response and the
  background task the endpoint has scheduled, if any, by its arguments. The call of the
  service and the building of the response are both inside the \<open>try\<close>, so a failure
  of either is answered with the status \<open>failed\<close>.
\<close>

definition execute_flow_endpoint ::
  "engine \<Rightarrow> string \<Rightarrow> flow_request
     \<Rightarrow> flow_response \<times> (string \<times> string \<times> py_dict) option" where
  "execute_flow_endpoint w execution_id request =
     (if q_stream request then
        (\<lparr>p_execution_id = execution_id, p_flow_id = q_flow_id request,
          p_status = ''streaming'', p_outputs = None, p_error = None\<rparr>,
         Some (execution_id, q_flow_id request, q_inputs request))
      else
        (case (case execute_flow w (q_flow_id request) (q_inputs request) of
                 Inl e \<Rightarrow> Inl e
               | Inr result \<Rightarrow> validate_outputs result) of
           Inr outputs \<Rightarrow>
             \<lparr>p_execution_id = execution_id, p_flow_id = q_flow_id request,
              p_status = ''completed'', p_outputs = outputs, p_error = None\<rparr>
         | Inl e \<Rightarrow>
             \<lparr>p_execution_id = execution_id, p_flow_id = q_flow_id request,
              p_status = ''failed'', p_outputs = None, p_error = Some (err_msg e)\<rparr>,
         None))"

datatype http_error = HTTPException nat string

record upload_response =
  u_status :: string
  u_processed_files :: nat
  u_document_ids :: "string list"
  u_message :: string

definition upload_documents :: "library \<Rightarrow> string list \<Rightarrow> http_error + upload_response" where
  "upload_documents lib files =
     (case process_documents lib files of
        Inr result \<Rightarrow>
          Inr \<lparr>u_status = ''success'', u_processed_files = length files,
               u_document_ids = document_ids result,
               u_message = ''Documents processed successfully''\<rparr>
      | Inl e \<Rightarrow> Inl (HTTPException 500 (''Failed to process documents: '' @ err_msg e)))"

section \<open>The specification's wording\<close>

text \<open>
  The sanitization of a title as the specification words it: the characters that are not
  alphanumeric, space, hyphen or underscore are stripped, spaces become hyphens, and the
  result is cut to 50 characters.
\<close>

definition stripped_title :: "string \<Rightarrow> string" where
  "stripped_title title =
     take 50 (replace_char CHR '' '' ''-''
       (filter (\<lambda>c. isalnum c \<or> c = CHR '' '' \<or> c = CHR ''-'' \<or> c = CHR ''_'') title))"

text \<open>
  The rich-text tree as the specification words it: a text node carries literal text, a
  typed node carries a list of children under \<open>content\<close>, and a list node is a list of
  nodes. \<open>plain_text\<close> visits the tree: it accumulates the text of text nodes and
  appends a double newline after a paragraph or a heading. \<open>to_json\<close> is the JSON
  value of a tree.
\<close>

datatype pm_node =
    Text string
  | Typed string "pm_node list"
  | Listed "pm_node list"

fun plain_text :: "pm_node \<Rightarrow> string" where
  "plain_text (Text s) = s"
| "plain_text (Typed ty children) =
     concat (map plain_text children)
       @ (if ty = ''paragraph'' \<or> ty = ''heading'' then ''\<newline>\<newline>'' else [])"
| "plain_text (Listed items) = concat (map plain_text items)"

fun to_json :: "pm_node \<Rightarrow> json" where
  "to_json (Text s) = JDict [(''type'', JStr ''text''), (''text'', JStr s)]"
| "to_json (Typed ty children) =
     JDict [(''type'', JStr ty), (''content'', JList (map to_json children))]"
| "to_json (Listed items) = JList (map to_json items)"

section \<open>Example environments\<close>

text \<open>
  An engine that cannot be reached: every HTTP call raises. Nothing is in the vector
  store.
\<close>

definition engine_down :: engine where
  "engine_down =
     \<lparr>langflow_url = ''http://localhost:7860'',
      http_post = (\<lambda>url body. Inl (Error ''ConnectError'' ''All connection attempts failed'')),
      py_repr = (\<lambda>v. ''[...]''),
      similarity_search = (\<lambda>question. Inr [])\<rparr>"

text \<open>
  Two engines that answer every call with the status 200: the body of the first is
  \<open>null\<close>, the body of the second is the list \<open>[1, 2, 3]\<close>.
\<close>

definition engine_null :: engine where
  "engine_null = engine_down\<lparr>http_post := (\<lambda>url body. Inr JNull)\<rparr>"

definition engine_list :: engine where
  "engine_list = engine_down\<lparr>http_post := (\<lambda>url body. Inr (JList [JNum 1, JNum 2, JNum 3]))\<rparr>"

text \<open>
  A library that reads every text file into two chunks and fails on every other file;
  the vector store accepts what it is given.
\<close>

definition text_only_library :: library where
  "text_only_library =
     \<lparr>load_and_split = (\<lambda>l file_path.
        if l = TextLoader then Inr [Document ''first'', Document ''second'']
        else Inl (Error ''FileNotFoundError'' ''No such file or directory'')),
      add_documents = (\<lambda>docs. None)\<rparr>"



section \<open>Properties of app/core/config.py\<close>





section \<open>Properties of sync-granola.py\<close>

subsection \<open>Sanitizing the title\<close>

lemma replace_char_single: "replace_char c [d] s = map (\<lambda>x. if x = c then d else x) s"
  by (induction s) (simp_all add: replace_char_def)

lemma not_alnum_space: "\<not> isalnum CHR '' ''"
  by (simp add: isalnum_def)

text \<open>
  C2, as the code has it. In \<open>save_document\<close> every character of the title that is
  not alphanumeric, hyphen or underscore (a space included) is replaced by a hyphen, none
  is removed, and the result is cut to 50 characters: it has the length of the title or
  50, whichever is less, and holds only alphanumerics, hyphens and underscores.
\<close>

theorem safe_title_replaces:
  "safe_title title =
     take 50 (map (\<lambda>c. if isalnum c \<or> c = CHR ''-'' \<or> c = CHR ''_'' then c else CHR ''-'') title)
   \<and> length (safe_title title) = min 50 (length title)
   \<and> (\<forall>c \<in> set (safe_title title). isalnum c \<or> c = CHR ''-'' \<or> c = CHR ''_'')"
proof -
  have eq: "safe_title title =
     take 50 (map (\<lambda>c. if isalnum c \<or> c = CHR ''-'' \<or> c = CHR ''_'' then c else CHR ''-'') title)"
    unfolding safe_title_def replace_char_single
    by (rule arg_cong [where f = "take 50"]) (auto simp: not_alnum_space)
  have len: "length (safe_title title) = min 50 (length title)"
    by (simp add: eq min.commute)
  have chars: "\<forall>c \<in> set (safe_title title). isalnum c \<or> c = CHR ''-'' \<or> c = CHR ''_''"
  proof
    fix c assume "c \<in> set (safe_title title)"
    then have "c \<in> set (map (\<lambda>c. if isalnum c \<or> c = CHR ''-'' \<or> c = CHR ''_'' then c else CHR ''-'') title)"
      unfolding eq by (rule in_set_takeD)
    then show "isalnum c \<or> c = CHR ''-'' \<or> c = CHR ''_''" by auto
  qed
  from eq len chars show ?thesis by blast
qed

theorem safe_title_replaces_witness:
  "safe_title ''Q&A: Sprint Review!'' = ''Q-A--Sprint-Review-''
   \<and> length (safe_title ''Q&A: Sprint Review!'') = 19"
  using safe_title_replaces [of "''Q&A: Sprint Review!''"]
  by (simp add: isalnum_def)

text \<open>
  The title \<open>Q&A: Sprint Review!\<close> keeps a hyphen in the place of each of its four
  disallowed characters, where stripping them would give \<open>QA-Sprint-Review\<close>.
\<close>

theorem safe_title_strip_counterexample:
  "safe_title ''Q&A: Sprint Review!'' = ''Q-A--Sprint-Review-''
   \<and> stripped_title ''Q&A: Sprint Review!'' = ''QA-Sprint-Review''
   \<and> safe_title ''Q&A: Sprint Review!'' \<noteq> stripped_title ''Q&A: Sprint Review!''"
  by (simp add: safe_title_def stripped_title_def replace_char_def isalnum_def)

subsection \<open>Converting the rich-text tree\<close>

text \<open>
  On the JSON value of a tree, \<open>extract_text\<close> does not raise, and the parts it
  collects join to the text of the tree.
\<close>

lemma join_parts_append:
  "join_parts a = Inr x \<Longrightarrow> join_parts b = Inr y \<Longrightarrow> join_parts (a @ b) = Inr (x @ y)"
proof (induction a arbitrary: x rule: join_parts.induct)
  case 1
  then show ?case by simp
next
  case (2 s parts)
  then show ?case by (auto split: sum.splits)
qed simp_all

lemma extract_each_nodes:
  assumes "\<And>n. n \<in> set ns \<Longrightarrow>
     \<exists>ps. extract_text (to_json n) = Inr ps \<and> join_parts ps = Inr (plain_text n)"
  shows "\<exists>ps. extract_each (map to_json ns) = Inr ps
           \<and> join_parts ps = Inr (concat (map plain_text ns))"
  using assms
proof (induction ns)
  case Nil
  then show ?case by simp
next
  case (Cons n ns)
  from Cons.prems obtain a where a: "extract_text (to_json n) = Inr a"
    "join_parts a = Inr (plain_text n)" by auto
  from Cons obtain b where b: "extract_each (map to_json ns) = Inr b"
    "join_parts b = Inr (concat (map plain_text ns))" by auto
  from a b show ?case by (simp add: join_parts_append)
qed

lemma extract_text_node:
  "\<exists>ps. extract_text (to_json n) = Inr ps \<and> join_parts ps = Inr (plain_text n)"
proof (induction n)
  case (Text s)
  then show ?case by simp
next
  case (Typed ty children)
  then obtain inner where inner: "extract_each (map to_json children) = Inr inner"
    "join_parts inner = Inr (concat (map plain_text children))"
    using extract_each_nodes [of children] by blast
  show ?case
  proof (cases "ty = ''text''")
    case True
    have "join_parts (JStr [] # inner) = Inr (concat (map plain_text children))"
      using inner by simp
    with True inner show ?thesis by simp
  next
    case False
    show ?thesis
    proof (cases "ty = ''paragraph'' \<or> ty = ''heading''")
      case True
      have "join_parts (inner @ [JStr ''\<newline>\<newline>''])
            = Inr (concat (map plain_text children) @ ''\<newline>\<newline>'')"
        using inner by (intro join_parts_append) simp_all
      with True False inner show ?thesis by auto
    next
      case f2: False
      with False inner show ?thesis by simp
    qed
  qed
next
  case (Listed items)
  then show ?case using extract_each_nodes [of items] by simp
qed

text \<open>
  C4. On a tree whose root is a typed node, \<open>prosemirror_to_text\<close> returns the
  trimmed concatenation that the visit of the specification gives: the literal text of
  the text nodes in order, a double newline after each paragraph and heading, children
  lists and list nodes visited alike. A tree with a heading \<open>Title\<close> followed by a
  paragraph \<open>Body\<close> gives exactly \<open>Title\n\nBody\<close>.
\<close>

theorem prosemirror_to_text_plain_text:
  "prosemirror_to_text (to_json (Typed ty children)) = Inr (strip (plain_text (Typed ty children)))
   \<and> prosemirror_to_text
        (to_json (Typed ''doc'' [Typed ''heading'' [Text ''Title''],
                                 Typed ''paragraph'' [Text ''Body'']]))
      = Inr ''Title\<newline>\<newline>Body''"
proof
  obtain ps where ps: "extract_text (to_json (Typed ty children)) = Inr ps"
    "join_parts ps = Inr (plain_text (Typed ty children))"
    using extract_text_node by blast
  have "py_truthy (to_json (Typed ty children))" by (simp add: py_truthy_def)
  moreover have "has_content (to_json (Typed ty children)) = Inr True"
    by (simp add: has_content_def)
  ultimately show "prosemirror_to_text (to_json (Typed ty children))
      = Inr (strip (plain_text (Typed ty children)))"
    using ps unfolding prosemirror_to_text_def by simp
next
  show "prosemirror_to_text
        (to_json (Typed ''doc'' [Typed ''heading'' [Text ''Title''],
                                 Typed ''paragraph'' [Text ''Body'']]))
      = Inr ''Title\<newline>\<newline>Body''"
    by (simp add: prosemirror_to_text_def py_truthy_def has_content_def strip_def isspace_def)
qed

subsection \<open>Saving a document twice\<close>

text \<open>
  The scan of one file looks at its first 11 lines; the search over the files returns a
  file exactly when one of them carries the marker there.
\<close>

lemma scan_lines_take:
  "scan_lines doc_id i ls = (\<exists>l \<in> set (take (11 - i) ls). has_marker doc_id l)"
proof (induction doc_id i ls rule: scan_lines.induct)
  case (1 doc_id i)
  then show ?case by simp
next
  case (2 doc_id i line rest)
  show ?case
  proof (cases "i > 10")
    case True
    then show ?thesis by simp
  next
    case False
    then have "11 - i = Suc (11 - Suc i)" by simp
    with False 2 show ?thesis by (simp del: One_nat_def)
  qed
qed

lemma find_existing_Some:
  "find_existing files doc_id = Some name \<Longrightarrow>
     \<exists>text. (name, text) \<in> set files \<and> name \<noteq> ''.gitkeep''
       \<and> scan_lines doc_id 0 (file_lines text)"
proof (induction files doc_id rule: find_existing.induct)
  case (1 doc_id)
  then show ?case by simp
next
  case (2 existing_file files doc_id)
  then show ?case by (cases existing_file) (auto split: if_splits)
qed

lemma find_existing_None:
  "find_existing files doc_id = None \<Longrightarrow> (name, text) \<in> set files \<Longrightarrow>
     name \<noteq> ''.gitkeep'' \<Longrightarrow> \<not> scan_lines doc_id 0 (file_lines text)"
proof (induction files doc_id rule: find_existing.induct)
  case (1 doc_id)
  then show ?case by simp
next
  case (2 existing_file files doc_id)
  then show ?case by (cases existing_file) (auto split: if_splits)
qed


lemma collision_loop_fresh:
  "collision_loop names stem filename counter \<notin> set names"
proof (induction names stem filename counter rule: collision_loop.induct)
  case (1 names stem filename counter)
  then show ?case by (subst collision_loop.simps) simp
qed

lemma gitkeep_not_md: "suffix ''.md'' name \<Longrightarrow> name \<noteq> ''.gitkeep''"
  by (auto simp: suffix_def)


lemma glob_md_set: "set (glob_md dir) = {entry \<in> set dir. suffix ''.md'' (fst entry)}"
  by (auto simp: glob_md_def)

lemma save_document_existing:
  assumes "find_existing (glob_md dir) (case r_id doc of None \<Rightarrow> ''unknown'' | Some v \<Rightarrow> v)
             = Some existing_file"
  shows "save_document format_date dir doc include_full_note = Inr (existing_file, dir)"
  using assms by (simp add: save_document_def)

text \<open>
  Whenever some Markdown file of the directory carries the marker of the document in its
  first 11 lines, a save returns such a file and leaves the directory as it is.
\<close>

lemma save_document_marked:
  assumes "(name, text) \<in> set dir" and "suffix ''.md'' name"
    and "\<exists>line \<in> set (take 11 (file_lines text)).
           has_marker (case r_id doc of None \<Rightarrow> ''unknown'' | Some v \<Rightarrow> v) line"
  shows "\<exists>path found. save_document format_date dir doc include_full_note = Inr (path, dir)
           \<and> (path, found) \<in> set dir
           \<and> (\<exists>line \<in> set (take 11 (file_lines found)).
                 has_marker (case r_id doc of None \<Rightarrow> ''unknown'' | Some v \<Rightarrow> v) line)"
proof -
  define doc_id where "doc_id = (case r_id doc of None \<Rightarrow> ''unknown'' | Some v \<Rightarrow> v)"
  have "(name, text) \<in> set (glob_md dir)" using assms(1,2) by (simp add: glob_md_set)
  moreover have "scan_lines doc_id 0 (file_lines text)"
    using assms(3) unfolding doc_id_def by (simp add: scan_lines_take)
  ultimately have "find_existing (glob_md dir) doc_id \<noteq> None"
    using find_existing_None gitkeep_not_md [OF assms(2)] by blast
  then obtain path where p: "find_existing (glob_md dir) doc_id = Some path" by auto
  then obtain found where f: "(path, found) \<in> set (glob_md dir)"
    "scan_lines doc_id 0 (file_lines found)"
    using find_existing_Some by blast
  from p have "save_document format_date dir doc include_full_note = Inr (path, dir)"
    unfolding doc_id_def by (rule save_document_existing)
  moreover from f(1) have "(path, found) \<in> set dir" by (simp add: glob_md_set)
  moreover from f(2) have "\<exists>line \<in> set (take 11 (file_lines found)). has_marker doc_id line"
    by (simp add: scan_lines_take)
  ultimately show ?thesis unfolding doc_id_def by blast
qed



subsection \<open>The date filter of \<open>sync\<close>\<close>


section \<open>Properties of app/services/langflow_service.py\<close>

subsection \<open>Runs of \<open>execute_flow\<close>\<close>

text \<open>
  The chat flow returns; the summary flow raises on a document that has no slice; for an
  unknown flow the body of the engine's response is returned as it is, a \<open>null\<close> and
  a list included.
\<close>

lemma chat_returns:
  "execute_flow engine_down ''chat-basic'' [(''message'', JStr ''hi'')]
     = Inr (JDict [(''response'', JStr (''AI Response to: hi'' @ backslash_n @ backslash_n @ ''This is a simulated response from the chat flow. In a real implementation, this would connect to your preferred LLM.'')),
            (''message_count'', JNum 1), (''flow_type'', JStr ''chat'')])"
  by (simp add: execute_flow_def execute_chat_flow_def get_or_def format_value_def)

lemma summary_raises:
  "execute_flow engine_down ''document-summary'' [(''document'', JNum 5)]
     = Inl (Error ''TypeError'' ''object is not subscriptable'')"
  by (simp add: execute_flow_def execute_summary_flow_def get_or_def)

lemma null_body_returns: "execute_flow engine_null ''my-flow'' [] = Inr JNull"
  by (simp add: execute_flow_def engine_null_def)

lemma list_body_returns:
  "execute_flow engine_list ''my-flow'' [] = Inr (JList [JNum 1, JNum 2, JNum 3])"
  by (simp add: execute_flow_def engine_list_def)

text \<open>
  A built-in flow never returns \<open>None\<close>, so \<open>execute_flow\<close> returns \<open>None\<close>
  exactly for an unknown flow whose engine response has the body \<open>null\<close>.
\<close>

lemma chat_not_null: "execute_chat_flow w inputs \<noteq> Inr JNull"
  by (simp add: execute_chat_flow_def Let_def)

lemma rag_not_null: "execute_rag_flow w inputs \<noteq> Inr JNull"
  by (simp add: execute_rag_flow_def Let_def split: sum.splits)

lemma summary_not_null: "execute_summary_flow w inputs \<noteq> Inr JNull"
  by (simp add: execute_summary_flow_def Let_def split: sum.splits json.splits)

lemma execute_flow_null:
  "execute_flow w flow_id inputs = Inr JNull \<longleftrightarrow>
     flow_id \<noteq> ''chat-basic'' \<and> flow_id \<noteq> ''rag-qa'' \<and> flow_id \<noteq> ''document-summary''
     \<and> http_post w (langflow_url w @ ''/api/flows/'' @ flow_id @ ''/run'')
           [(''inputs'', JDict inputs)] = Inr JNull"
  by (auto simp: execute_flow_def chat_not_null rag_not_null summary_not_null
      split: sum.splits)

subsection \<open>An unknown flow with the engine unreachable\<close>

text \<open>
  C6. For a flow id that is none of the three built-in ids, when the HTTP call to the
  flow engine fails, \<open>execute_flow\<close> returns (it does not raise) an error payload
  whose \<open>available_flows\<close> field is the list of \<open>chat-basic\<close>, \<open>rag-qa\<close> and
  \<open>document-summary\<close>, in this order, next to an \<open>error\<close> message naming the flow.
\<close>

theorem execute_flow_error_payload:
  assumes "flow_id \<noteq> ''chat-basic''" and "flow_id \<noteq> ''rag-qa''"
    and "flow_id \<noteq> ''document-summary''"
    and "http_post w (langflow_url w @ ''/api/flows/'' @ flow_id @ ''/run'')
           [(''inputs'', JDict inputs)] = Inl e"
  shows "\<exists>payload. execute_flow w flow_id inputs = Inr (JDict payload)
           \<and> map_of payload ''available_flows''
               = Some (JList [JStr ''chat-basic'', JStr ''rag-qa'', JStr ''document-summary''])
           \<and> map_of payload ''error''
               = Some (JStr (''Flow '' @ flow_id @ '' not found and LangFlow not available''))"
  using assms by (simp add: execute_flow_def)

theorem execute_flow_error_payload_witness:
  "\<exists>payload. execute_flow engine_down ''my-flow'' [] = Inr (JDict payload)
     \<and> map_of payload ''available_flows''
         = Some (JList [JStr ''chat-basic'', JStr ''rag-qa'', JStr ''document-summary''])
     \<and> map_of payload ''error''
         = Some (JStr ''Flow my-flow not found and LangFlow not available'')"
  using execute_flow_error_payload [of "''my-flow''" engine_down "[]"
      "Error ''ConnectError'' ''All connection attempts failed''"]
  by (simp add: engine_down_def)

subsection \<open>The execution record of a background run\<close>

text \<open>
  C7, as the code has it. The record that \<open>execute_flow_streaming\<close> creates is written
  twice and shows two states to a poll: first \<open>running\<close>, with no outputs and no
  error; then \<open>completed\<close>, with the outputs set to the value that \<open>execute_flow\<close>
  returned and no error, or \<open>failed\<close>, with no outputs and the error message set, when
  it has raised. The only transitions are from \<open>running\<close> to \<open>completed\<close> and from
  \<open>running\<close> to \<open>failed\<close>. The outputs of a completed record are absent exactly
  when the flow is not built in and the engine has answered with the body \<open>null\<close>.
\<close>

theorem execute_flow_streaming_transitions:
  "map (\<lambda>table. get_execution table execution_id)
     (execute_flow_streaming w table execution_id flow_id inputs started completed)
   = [Some \<lparr>i_execution_id = execution_id, i_flow_id = flow_id, i_status = ''running'',
            i_outputs = JNull, i_error = None\<rparr>,
      Some (case execute_flow w flow_id inputs of
              Inr result \<Rightarrow>
                \<lparr>i_execution_id = execution_id, i_flow_id = flow_id,
                 i_status = ''completed'', i_outputs = result, i_error = None\<rparr>
            | Inl e \<Rightarrow>
                \<lparr>i_execution_id = execution_id, i_flow_id = flow_id,
                 i_status = ''failed'', i_outputs = JNull, i_error = Some (err_msg e)\<rparr>)]
   \<and> (execute_flow w flow_id inputs = Inr JNull \<longleftrightarrow>
        flow_id \<noteq> ''chat-basic'' \<and> flow_id \<noteq> ''rag-qa'' \<and> flow_id \<noteq> ''document-summary''
        \<and> http_post w (langflow_url w @ ''/api/flows/'' @ flow_id @ ''/run'')
              [(''inputs'', JDict inputs)] = Inr JNull)"
proof
  show "map (\<lambda>table. get_execution table execution_id)
     (execute_flow_streaming w table execution_id flow_id inputs started completed)
   = [Some \<lparr>i_execution_id = execution_id, i_flow_id = flow_id, i_status = ''running'',
            i_outputs = JNull, i_error = None\<rparr>,
      Some (case execute_flow w flow_id inputs of
              Inr result \<Rightarrow>
                \<lparr>i_execution_id = execution_id, i_flow_id = flow_id,
                 i_status = ''completed'', i_outputs = result, i_error = None\<rparr>
            | Inl e \<Rightarrow>
                \<lparr>i_execution_id = execution_id, i_flow_id = flow_id,
                 i_status = ''failed'', i_outputs = JNull, i_error = Some (err_msg e)\<rparr>)]"
  proof (cases "execute_flow w flow_id inputs")
    case (Inl e)
    then show ?thesis
      by (simp add: execute_flow_streaming_def running_entry_def get_execution_def)
  next
    case (Inr result)
    then show ?thesis
      by (simp add: execute_flow_streaming_def running_entry_def get_execution_def)
  qed
next
  show "execute_flow w flow_id inputs = Inr JNull \<longleftrightarrow>
        flow_id \<noteq> ''chat-basic'' \<and> flow_id \<noteq> ''rag-qa'' \<and> flow_id \<noteq> ''document-summary''
        \<and> http_post w (langflow_url w @ ''/api/flows/'' @ flow_id @ ''/run'')
              [(''inputs'', JDict inputs)] = Inr JNull"
    by (rule execute_flow_null)
qed

text \<open>Both transitions occur.\<close>

theorem execute_flow_streaming_transitions_witness:
  "map (\<lambda>table. map_option i_status (get_execution table ''e1''))
     (execute_flow_streaming engine_down Map.empty ''e1'' ''document-summary''
        [(''document'', JNum 5)] ''t0'' ''t1'')
     = [Some ''running'', Some ''failed'']
   \<and> map (\<lambda>table. map_option i_status (get_execution table ''e2''))
     (execute_flow_streaming engine_down Map.empty ''e2'' ''chat-basic''
        [(''message'', JStr ''hi'')] ''t0'' ''t1'')
     = [Some ''running'', Some ''completed'']"
proof -
  have a: "map (\<lambda>table. map_option i_status (get_execution table ''e1'')) trace
     = map (map_option i_status) (map (\<lambda>table. get_execution table ''e1'') trace)" for trace
    by simp
  have b: "map (\<lambda>table. map_option i_status (get_execution table ''e2'')) trace
     = map (map_option i_status) (map (\<lambda>table. get_execution table ''e2'') trace)" for trace
    by simp
  note t1 = execute_flow_streaming_transitions [of "''e1''" engine_down Map.empty
      "''document-summary''" "[(''document'', JNum 5)]" "''t0''" "''t1''", THEN conjunct1]
  note t2 = execute_flow_streaming_transitions [of "''e2''" engine_down Map.empty
      "''chat-basic''" "[(''message'', JStr ''hi'')]" "''t0''" "''t1''", THEN conjunct1]
  show ?thesis
    unfolding a b t1 t2
    by (simp add: summary_raises chat_returns)
qed

text \<open>
  An unknown flow whose engine answers \<open>null\<close>: the record is completed and its
  outputs are absent.
\<close>

theorem execute_flow_streaming_null_counterexample:
  "map (\<lambda>table. get_execution table ''e1'')
     (execute_flow_streaming engine_null Map.empty ''e1'' ''my-flow'' [] ''t0'' ''t1'')
   = [Some \<lparr>i_execution_id = ''e1'', i_flow_id = ''my-flow'', i_status = ''running'',
            i_outputs = JNull, i_error = None\<rparr>,
      Some \<lparr>i_execution_id = ''e1'', i_flow_id = ''my-flow'', i_status = ''completed'',
            i_outputs = JNull, i_error = None\<rparr>]"
  by (simp add: execute_flow_streaming_def running_entry_def get_execution_def
      null_body_returns)

subsection \<open>The files-processed count\<close>

lemma truthy_any: "list_ex truthy_chunk docs = (docs \<noteq> [])"
  by (cases docs) (simp_all add: truthy_chunk_def)

text \<open>
  C1, as the code has it. The files-processed count that \<open>process_documents\<close> returns
  is the number of input file paths whenever at least one chunk was produced, and 0
  otherwise; it is not the chunk count.
\<close>

theorem process_documents_files_processed:
  assumes "process_documents lib file_paths = Inr result"
  shows "files_processed result
         = (if chunks_processed result > 0 then length file_paths else 0)"
proof -
  define processed_docs where "processed_docs = fst (process_each lib file_paths ([], []))"
  from assms have r: "chunks_processed result = length processed_docs"
    "files_processed result
       = length (filter (\<lambda>f. list_ex truthy_chunk processed_docs) file_paths)"
    unfolding process_documents_def processed_docs_def Let_def
    by (auto split: if_splits option.splits)
  show ?thesis
  proof (cases "processed_docs = []")
    case True
    with r show ?thesis by (simp add: truthy_any)
  next
    case False
    with r show ?thesis by (simp add: truthy_any)
  qed
qed

theorem process_documents_files_processed_witness:
  "process_documents text_only_library [''notes.txt'', ''missing.pdf'']
     = Inr \<lparr>document_ids = [''doc_0''], chunks_processed = 2, files_processed = 2\<rparr>"
proof -
  have run: "process_documents text_only_library [''notes.txt'', ''missing.pdf'']
     = Inr \<lparr>document_ids = [''doc_0''], chunks_processed = 2, files_processed = 2\<rparr>"
    by code_simp
  from process_documents_files_processed [OF run] show ?thesis using run by simp
qed

text \<open>
  One text file split into two chunks: the chunk count is 2 and the files-processed
  count is 1.
\<close>

theorem process_documents_chunk_count_counterexample:
  "process_documents text_only_library [''notes.txt'']
     = Inr \<lparr>document_ids = [''doc_0''], chunks_processed = 2, files_processed = 1\<rparr>
   \<and> files_processed \<lparr>document_ids = [''doc_0''], chunks_processed = 2, files_processed = 1\<rparr>
       \<noteq> chunks_processed
           \<lparr>document_ids = [''doc_0''], chunks_processed = 2, files_processed = 1\<rparr>"
proof
  show "process_documents text_only_library [''notes.txt'']
     = Inr \<lparr>document_ids = [''doc_0''], chunks_processed = 2, files_processed = 1\<rparr>"
    by code_simp
next
  show "files_processed \<lparr>document_ids = [''doc_0''], chunks_processed = 2, files_processed = 1\<rparr>
       \<noteq> chunks_processed
           \<lparr>document_ids = [''doc_0''], chunks_processed = 2, files_processed = 1\<rparr>"
    by simp
qed

section \<open>Properties of app/api/v1/flows.py\<close>

subsection \<open>Uploading documents\<close>

text \<open>The service gives one document id to each file it loads and splits.\<close>

lemma process_each_ids:
  "length (snd (process_each lib file_paths acc))
   = length (snd acc)
     + length (filter (\<lambda>f. \<not> isl (load_and_split lib (loader_for f) f)) file_paths)"
proof (induction file_paths arbitrary: acc)
  case Nil
  then show ?case by simp
next
  case (Cons file_path file_paths)
  show ?case
  proof (cases "load_and_split lib (loader_for file_path) file_path")
    case (Inl e)
    with Cons show ?thesis by simp
  next
    case (Inr split_docs)
    with Cons show ?thesis by simp
  qed
qed

text \<open>
  C9. When the upload endpoint returns, the \<open>processed_files\<close> field of its response
  is the length of the list of file paths, while the document ids are as many as the
  files that the service loaded and split: a file that fails is skipped in the service
  and still counted here.
\<close>

theorem upload_documents_processed_files:
  assumes "upload_documents lib files = Inr response"
  shows "u_processed_files response = length files
     \<and> length (u_document_ids response)
         = length (filter (\<lambda>f. \<not> isl (load_and_split lib (loader_for f) f)) files)"
proof -
  from assms obtain result where r: "process_documents lib files = Inr result"
    and resp: "response = \<lparr>u_status = ''success'', u_processed_files = length files,
               u_document_ids = document_ids result,
               u_message = ''Documents processed successfully''\<rparr>"
    unfolding upload_documents_def by (auto split: sum.splits)
  from r have "document_ids result = snd (process_each lib files ([], []))"
    unfolding process_documents_def Let_def by (auto split: if_splits option.splits)
  then have "length (document_ids result)
      = length (filter (\<lambda>f. \<not> isl (load_and_split lib (loader_for f) f)) files)"
    by (simp add: process_each_ids)
  with resp show ?thesis by simp
qed

theorem upload_documents_processed_files_witness:
  "upload_documents text_only_library [''notes.txt'', ''missing.pdf'']
     = Inr \<lparr>u_status = ''success'', u_processed_files = 2, u_document_ids = [''doc_0''],
            u_message = ''Documents processed successfully''\<rparr>"
proof -
  have run: "upload_documents text_only_library [''notes.txt'', ''missing.pdf'']
     = Inr \<lparr>u_status = ''success'', u_processed_files = 2, u_document_ids = [''doc_0''],
            u_message = ''Documents processed successfully''\<rparr>"
    by code_simp
  from upload_documents_processed_files [OF run] run show ?thesis by simp
qed

subsection \<open>Executing a flow without streaming\<close>

text \<open>The response cannot be built exactly from a value that is neither \<open>None\<close> nor a dict.\<close>

lemma validate_outputs_fails:
  "(\<exists>e. validate_outputs result = Inl e) \<longleftrightarrow> result \<noteq> JNull \<and> (\<forall>d. result \<noteq> JDict d)"
  by (cases result) (simp_all add: validate_outputs_def)

text \<open>
  C10, as the code has it. For a request without streaming: when the service returns a
  dict, the response has the status \<open>completed\<close>, that dict as outputs and no error,
  also when the dict is the error payload for an unknown flow id with the engine
  unreachable; when the service returns \<open>None\<close>, the response is \<open>completed\<close>
  without outputs; the status is \<open>failed\<close> exactly when the service call raises or
  returns a value that is neither a dict nor \<open>None\<close>, since the response is built
  inside the same \<open>try\<close>.
\<close>

theorem execute_flow_endpoint_status:
  assumes "\<not> q_stream request"
  shows "(\<forall>d. execute_flow w (q_flow_id request) (q_inputs request) = Inr (JDict d) \<longrightarrow>
            execute_flow_endpoint w execution_id request
            = (\<lparr>p_execution_id = execution_id, p_flow_id = q_flow_id request,
                p_status = ''completed'', p_outputs = Some d, p_error = None\<rparr>, None))
     \<and> (execute_flow w (q_flow_id request) (q_inputs request) = Inr JNull \<longrightarrow>
            execute_flow_endpoint w execution_id request
            = (\<lparr>p_execution_id = execution_id, p_flow_id = q_flow_id request,
                p_status = ''completed'', p_outputs = None, p_error = None\<rparr>, None))
     \<and> (p_status (fst (execute_flow_endpoint w execution_id request)) = ''failed''
          \<longleftrightarrow> (\<exists>e. execute_flow w (q_flow_id request) (q_inputs request) = Inl e)
              \<or> (\<exists>result. execute_flow w (q_flow_id request) (q_inputs request) = Inr result
                    \<and> result \<noteq> JNull \<and> (\<forall>d. result \<noteq> JDict d)))
     \<and> (q_flow_id request \<notin> {''chat-basic'', ''rag-qa'', ''document-summary''}
          \<and> (\<exists>e. http_post w (langflow_url w @ ''/api/flows/'' @ q_flow_id request @ ''/run'')
                      [(''inputs'', JDict (q_inputs request))] = Inl e)
          \<longrightarrow> execute_flow_endpoint w execution_id request
            = (\<lparr>p_execution_id = execution_id, p_flow_id = q_flow_id request,
                p_status = ''completed'',
                p_outputs = Some
                  [(''error'', JStr (''Flow '' @ q_flow_id request
                      @ '' not found and LangFlow not available'')),
                   (''available_flows'',
                    JList [JStr ''chat-basic'', JStr ''rag-qa'', JStr ''document-summary''])],
                p_error = None\<rparr>, None))"
proof (intro conjI allI impI)
  fix d
  assume "execute_flow w (q_flow_id request) (q_inputs request) = Inr (JDict d)"
  with assms show "execute_flow_endpoint w execution_id request
            = (\<lparr>p_execution_id = execution_id, p_flow_id = q_flow_id request,
                p_status = ''completed'', p_outputs = Some d, p_error = None\<rparr>, None)"
    by (simp add: execute_flow_endpoint_def validate_outputs_def)
next
  assume "execute_flow w (q_flow_id request) (q_inputs request) = Inr JNull"
  with assms show "execute_flow_endpoint w execution_id request
            = (\<lparr>p_execution_id = execution_id, p_flow_id = q_flow_id request,
                p_status = ''completed'', p_outputs = None, p_error = None\<rparr>, None)"
    by (simp add: execute_flow_endpoint_def validate_outputs_def)
next
  show "p_status (fst (execute_flow_endpoint w execution_id request)) = ''failed''
          \<longleftrightarrow> (\<exists>e. execute_flow w (q_flow_id request) (q_inputs request) = Inl e)
              \<or> (\<exists>result. execute_flow w (q_flow_id request) (q_inputs request) = Inr result
                    \<and> result \<noteq> JNull \<and> (\<forall>d. result \<noteq> JDict d))"
  proof (cases "execute_flow w (q_flow_id request) (q_inputs request)")
    case (Inl e)
    with assms show ?thesis by (simp add: execute_flow_endpoint_def)
  next
    case (Inr result)
    show ?thesis
    proof (cases "validate_outputs result")
      case (Inl e)
      then have "result \<noteq> JNull \<and> (\<forall>d. result \<noteq> JDict d)"
        using validate_outputs_fails [of result] by blast
      with Inl Inr assms show ?thesis by (simp add: execute_flow_endpoint_def)
    next
      case r: (Inr outputs)
      then have "\<not> (result \<noteq> JNull \<and> (\<forall>d. result \<noteq> JDict d))"
        using validate_outputs_fails [of result] by auto
      with r Inr assms show ?thesis by (simp add: execute_flow_endpoint_def)
    qed
  qed
next
  assume h: "q_flow_id request \<notin> {''chat-basic'', ''rag-qa'', ''document-summary''}
          \<and> (\<exists>e. http_post w (langflow_url w @ ''/api/flows/'' @ q_flow_id request @ ''/run'')
                      [(''inputs'', JDict (q_inputs request))] = Inl e)"
  then have "execute_flow w (q_flow_id request) (q_inputs request)
     = Inr (JDict [(''error'', JStr (''Flow '' @ q_flow_id request
                      @ '' not found and LangFlow not available'')),
            (''available_flows'',
               JList [JStr ''chat-basic'', JStr ''rag-qa'', JStr ''document-summary''])])"
    by (auto simp: execute_flow_def)
  with assms show "execute_flow_endpoint w execution_id request
            = (\<lparr>p_execution_id = execution_id, p_flow_id = q_flow_id request,
                p_status = ''completed'',
                p_outputs = Some
                  [(''error'', JStr (''Flow '' @ q_flow_id request
                      @ '' not found and LangFlow not available'')),
                   (''available_flows'',
                    JList [JStr ''chat-basic'', JStr ''rag-qa'', JStr ''document-summary''])],
                p_error = None\<rparr>, None)"
    by (simp add: execute_flow_endpoint_def validate_outputs_def)
qed

theorem execute_flow_endpoint_status_witness:
  "execute_flow_endpoint engine_down ''e1''
     \<lparr>q_flow_id = ''my-flow'', q_inputs = [], q_stream = False\<rparr>
   = (\<lparr>p_execution_id = ''e1'', p_flow_id = ''my-flow'', p_status = ''completed'',
       p_outputs = Some
         [(''error'', JStr ''Flow my-flow not found and LangFlow not available''),
          (''available_flows'',
           JList [JStr ''chat-basic'', JStr ''rag-qa'', JStr ''document-summary''])],
       p_error = None\<rparr>, None)
   \<and> p_status (fst (execute_flow_endpoint engine_down ''e2''
        \<lparr>q_flow_id = ''document-summary'', q_inputs = [(''document'', JNum 5)],
         q_stream = False\<rparr>)) = ''failed''
   \<and> execute_flow_endpoint engine_null ''e3''
        \<lparr>q_flow_id = ''my-flow'', q_inputs = [], q_stream = False\<rparr>
      = (\<lparr>p_execution_id = ''e3'', p_flow_id = ''my-flow'', p_status = ''completed'',
          p_outputs = None, p_error = None\<rparr>, None)"
proof -
  let ?r1 = "\<lparr>q_flow_id = ''my-flow'', q_inputs = [], q_stream = False\<rparr>"
  let ?r2 = "\<lparr>q_flow_id = ''document-summary'', q_inputs = [(''document'', JNum 5)],
             q_stream = False\<rparr>"
  have s1: "\<not> q_stream ?r1" and s2: "\<not> q_stream ?r2" by simp_all
  have unknown: "q_flow_id ?r1 \<notin> {''chat-basic'', ''rag-qa'', ''document-summary''}"
    by simp
  have down: "\<exists>e. http_post engine_down
      (langflow_url engine_down @ ''/api/flows/'' @ q_flow_id ?r1 @ ''/run'')
      [(''inputs'', JDict (q_inputs ?r1))] = Inl e"
    by (simp add: engine_down_def)
  have raises: "\<exists>e. execute_flow engine_down (q_flow_id ?r2) (q_inputs ?r2) = Inl e"
    using summary_raises by simp
  have null: "execute_flow engine_null (q_flow_id ?r1) (q_inputs ?r1) = Inr JNull"
    using null_body_returns by simp
  from execute_flow_endpoint_status [OF s1, of engine_down "''e1''"] unknown down
  have a: "execute_flow_endpoint engine_down ''e1'' ?r1
   = (\<lparr>p_execution_id = ''e1'', p_flow_id = ''my-flow'', p_status = ''completed'',
       p_outputs = Some
         [(''error'', JStr ''Flow my-flow not found and LangFlow not available''),
          (''available_flows'',
           JList [JStr ''chat-basic'', JStr ''rag-qa'', JStr ''document-summary''])],
       p_error = None\<rparr>, None)"
    by simp
  from execute_flow_endpoint_status [OF s2, of engine_down "''e2''"] raises
  have b: "p_status (fst (execute_flow_endpoint engine_down ''e2'' ?r2)) = ''failed''"
    by blast
  from execute_flow_endpoint_status [OF s1, of engine_null "''e3''"] null
  have c: "execute_flow_endpoint engine_null ''e3'' ?r1
      = (\<lparr>p_execution_id = ''e3'', p_flow_id = ''my-flow'', p_status = ''completed'',
          p_outputs = None, p_error = None\<rparr>, None)"
    by simp
  from a b c show ?thesis by simp
qed

text \<open>
  An unknown flow whose engine answers with a list: the service returns the list and
  the response is \<open>failed\<close>.
\<close>

theorem execute_flow_endpoint_list_counterexample:
  "execute_flow engine_list ''my-flow'' [] = Inr (JList [JNum 1, JNum 2, JNum 3])
   \<and> p_status (fst (execute_flow_endpoint engine_list ''e1''
        \<lparr>q_flow_id = ''my-flow'', q_inputs = [], q_stream = False\<rparr>)) = ''failed''"
  by (simp add: list_body_returns execute_flow_endpoint_def validate_outputs_def)

end
